theory Spec2Isabelle
  imports Complex_Main "HOL-Library.Log_Nat" "HOL-Library.Word"
begin

unbundle bit_operations_syntax

section \<open>Python numbers\<close>

text \<open>
  The program computes with Python \<open>float\<close> (IEEE-754 binary64) and \<open>int\<close> (unbounded)
  values. A finite double is modelled by the rational it denotes; negative zero, the two
  infinities and NaN are values of their own. Every arithmetic result is rounded to the
  nearest double, ties to the even significand, as the hardware does.
\<close>

datatype double = Finite rat | NegZero | PosInf | NegInf | NaN

datatype pynum = PInt int | PFloat double

datatype pyerr =
    ZeroDivisionError
  | OverflowError
  | ValueError
  | TypeError
  | JSONDecodeError
  | UnboundLocalError
  | TransportError string

text \<open>Nearest integer, a tie going to the even neighbour (Python's \<open>round\<close> on one argument).\<close>

definition round_half_even :: "rat \<Rightarrow> int" where
  "round_half_even x =
     (let f = \<lfloor>x\<rfloor>; d = x - of_int f
      in if d < 1 / 2 then f else if 1 / 2 < d then f + 1 else if even f then f else f + 1)"

text \<open>For \<open>0 < x\<close>, the exponent \<open>e\<close> with \<open>2 powi e \<le> x < 2 powi (e + 1)\<close>.\<close>

definition ilog2 :: "rat \<Rightarrow> int" where
  "ilog2 x = (if 1 \<le> x then bitlen \<lfloor>x\<rfloor> - 1 else - bitlen (\<lceil>1 / x\<rceil> - 1))"

text \<open>
  Rounding a rational to binary64: 53 significant bits, the spacing never finer than
  \<open>2 powi (-1074)\<close> (subnormals), and a rounded magnitude of \<open>2 ^ 1024\<close> or more is
  an overflow to infinity. A negative number that rounds to zero gives negative zero.
\<close>

definition spacing :: "rat \<Rightarrow> rat" where
  "spacing x = 2 powi (max (ilog2 \<bar>x\<bar>) (- 1022) - 52)"

definition nearest :: "rat \<Rightarrow> rat" where
  "nearest x = of_int (round_half_even (x / spacing x)) * spacing x"

definition to_double :: "rat \<Rightarrow> double" where
  "to_double x =
     (if x = 0 then Finite 0
      else
        let y = nearest x
        in if 2 ^ 1024 \<le> \<bar>y\<bar> then (if 0 < x then PosInf else NegInf)
           else if y = 0 then (if 0 < x then Finite 0 else NegZero)
           else Finite y)"

definition is_double :: "rat \<Rightarrow> bool" where
  "is_double x = (to_double x = Finite x)"

fun sign_bit :: "double \<Rightarrow> bool" where
  "sign_bit (Finite q) = (q < 0)"
| "sign_bit NegZero = True"
| "sign_bit NegInf = True"
| "sign_bit PosInf = False"
| "sign_bit NaN = False"

fun is_zero :: "double \<Rightarrow> bool" where
  "is_zero (Finite q) = (q = 0)"
| "is_zero NegZero = True"
| "is_zero _ = False"

fun is_inf :: "double \<Rightarrow> bool" where
  "is_inf PosInf = True"
| "is_inf NegInf = True"
| "is_inf _ = False"

fun is_finite :: "double \<Rightarrow> bool" where
  "is_finite (Finite q) = True"
| "is_finite NegZero = True"
| "is_finite _ = False"

fun rat_of_double :: "double \<Rightarrow> rat" where
  "rat_of_double (Finite q) = q"
| "rat_of_double _ = 0"

definition signed_zero :: "bool \<Rightarrow> double" where
  "signed_zero neg = (if neg then NegZero else Finite 0)"

definition signed_inf :: "bool \<Rightarrow> double" where
  "signed_inf neg = (if neg then NegInf else PosInf)"

text \<open>IEEE division; the divisor is not zero (Python raises before dividing).\<close>

definition fdiv :: "double \<Rightarrow> double \<Rightarrow> double" where
  "fdiv a b =
     (let neg = (sign_bit a \<noteq> sign_bit b)
      in if a = NaN \<or> b = NaN then NaN
         else if is_inf a then (if is_inf b then NaN else signed_inf neg)
         else if is_inf b then signed_zero neg
         else if is_zero a then signed_zero neg
         else to_double (rat_of_double a / rat_of_double b))"

definition fmul :: "double \<Rightarrow> double \<Rightarrow> double" where
  "fmul a b =
     (let neg = (sign_bit a \<noteq> sign_bit b)
      in if a = NaN \<or> b = NaN then NaN
         else if is_inf a \<or> is_inf b then (if is_zero a \<or> is_zero b then NaN else signed_inf neg)
         else if is_zero a \<or> is_zero b then signed_zero neg
         else to_double (rat_of_double a * rat_of_double b))"

text \<open>\<open>float(n)\<close> for an int: the nearest double, OverflowError beyond the range.\<close>

definition float_of_int :: "int \<Rightarrow> pyerr + double" where
  "float_of_int n = (case to_double (of_int n) of
       PosInf \<Rightarrow> Inl OverflowError
     | NegInf \<Rightarrow> Inl OverflowError
     | d \<Rightarrow> Inr d)"

definition py_float :: "pynum \<Rightarrow> pyerr + double" where
  "py_float v = (case v of PInt n \<Rightarrow> float_of_int n | PFloat d \<Rightarrow> Inr d)"

text \<open>
  \<open>a / b\<close>. Two ints divide exactly and the quotient is rounded once; otherwise an int
  operand is converted to a double first.
\<close>

definition py_truediv :: "pynum \<Rightarrow> pynum \<Rightarrow> pyerr + pynum" where
  "py_truediv a b =
     (case (a, b) of
        (PInt m, PInt n) \<Rightarrow>
          if n = 0 then Inl ZeroDivisionError
          else if m = 0 then Inr (PFloat (signed_zero (n < 0)))
          else (case to_double (of_int m / of_int n) of
                  PosInf \<Rightarrow> Inl OverflowError
                | NegInf \<Rightarrow> Inl OverflowError
                | d \<Rightarrow> Inr (PFloat d))
      | _ \<Rightarrow>
          (case py_float a of
             Inl e \<Rightarrow> Inl e
           | Inr x \<Rightarrow>
               (case py_float b of
                  Inl e \<Rightarrow> Inl e
                | Inr y \<Rightarrow> if is_zero y then Inl ZeroDivisionError else Inr (PFloat (fdiv x y)))))"

definition py_mul :: "pynum \<Rightarrow> pynum \<Rightarrow> pyerr + pynum" where
  "py_mul a b =
     (case (a, b) of
        (PInt m, PInt n) \<Rightarrow> Inr (PInt (m * n))
      | _ \<Rightarrow>
          (case py_float a of
             Inl e \<Rightarrow> Inl e
           | Inr x \<Rightarrow>
               (case py_float b of
                  Inl e \<Rightarrow> Inl e
                | Inr y \<Rightarrow> Inr (PFloat (fmul x y)))))"

text \<open>\<open>round(x)\<close> with one argument: an int; NaN and the infinities raise.\<close>

definition py_round :: "pynum \<Rightarrow> pyerr + pynum" where
  "py_round v =
     (case v of
        PInt n \<Rightarrow> Inr (PInt n)
      | PFloat NaN \<Rightarrow> Inl ValueError
      | PFloat PosInf \<Rightarrow> Inl OverflowError
      | PFloat NegInf \<Rightarrow> Inl OverflowError
      | PFloat NegZero \<Rightarrow> Inr (PInt 0)
      | PFloat (Finite q) \<Rightarrow> Inr (PInt (round_half_even q)))"

text \<open>
  Comparisons are exact, also between an int and a float, and false when NaN is involved.
  A number is placed on the extended line: the rank orders the infinities around the
  finite values.
\<close>

fun line_pos :: "pynum \<Rightarrow> (int \<times> rat) option" where
  "line_pos (PInt n) = Some (0, of_int n)"
| "line_pos (PFloat (Finite q)) = Some (0, q)"
| "line_pos (PFloat NegZero) = Some (0, 0)"
| "line_pos (PFloat PosInf) = Some (1, 0)"
| "line_pos (PFloat NegInf) = Some (- 1, 0)"
| "line_pos (PFloat NaN) = None"

definition py_lt :: "pynum \<Rightarrow> pynum \<Rightarrow> bool" where
  "py_lt a b =
     (case (line_pos a, line_pos b) of
        (Some (r, x), Some (s, y)) \<Rightarrow> r < s \<or> (r = s \<and> x < y)
      | _ \<Rightarrow> False)"

definition py_le :: "pynum \<Rightarrow> pynum \<Rightarrow> bool" where
  "py_le a b =
     (case (line_pos a, line_pos b) of
        (Some (r, x), Some (s, y)) \<Rightarrow> r < s \<or> (r = s \<and> x \<le> y)
      | _ \<Rightarrow> False)"

definition py_eq :: "pynum \<Rightarrow> pynum \<Rightarrow> bool" where
  "py_eq a b =
     (case (line_pos a, line_pos b) of
        (Some (r, x), Some (s, y)) \<Rightarrow> r = s \<and> x = y
      | _ \<Rightarrow> False)"

text \<open>\<open>max(a, b)\<close> keeps its first argument unless the second is greater.\<close>

definition py_max :: "pynum \<Rightarrow> pynum \<Rightarrow> pynum" where
  "py_max a b = (if py_lt a b then b else a)"

section \<open>The precision table\<close>

record precision =
  price_step :: pynum
  size_step :: pynum
  min_size :: pynum

text \<open>A float literal of the source denotes the double nearest to the decimal written.\<close>

definition lit :: "rat \<Rightarrow> pynum" where
  "lit x = PFloat (to_double x)"

definition SYMBOL_PRECISION :: "(string \<times> precision) list" where
  "SYMBOL_PRECISION =
     [(''cmt_btcusdt'', \<lparr>price_step = lit (1 / 10), size_step = lit (1 / 1000), min_size = lit (1 / 1000)\<rparr>),
      (''cmt_ethusdt'', \<lparr>price_step = lit (1 / 100), size_step = lit (1 / 1000), min_size = lit (1 / 1000)\<rparr>),
      (''cmt_solusdt'', \<lparr>price_step = lit (1 / 1000), size_step = lit (1 / 10), min_size = lit (1 / 10)\<rparr>),
      (''cmt_dogeusdt'', \<lparr>price_step = lit (1 / 100000), size_step = PInt 100, min_size = PInt 100\<rparr>),
      (''cmt_xrpusdt'', \<lparr>price_step = lit (1 / 10000), size_step = PInt 10, min_size = PInt 10\<rparr>),
      (''cmt_adausdt'', \<lparr>price_step = lit (1 / 10000), size_step = PInt 10, min_size = PInt 10\<rparr>),
      (''cmt_bnbusdt'', \<lparr>price_step = lit (1 / 100), size_step = lit (1 / 10), min_size = lit (1 / 10)\<rparr>),
      (''cmt_ltcusdt'', \<lparr>price_step = lit (1 / 100), size_step = lit (1 / 10), min_size = lit (1 / 10)\<rparr>)]"

section \<open>Rounding to a step\<close>

definition round_to_step :: "pynum \<Rightarrow> pynum \<Rightarrow> pyerr + pynum" where
  "round_to_step value step =
     (if py_le step (PInt 0) then Inr value
      else (case py_truediv value step of
              Inl e \<Rightarrow> Inl e
            | Inr q \<Rightarrow>
                (case py_round q of
                   Inl e \<Rightarrow> Inl e
                 | Inr n \<Rightarrow> py_mul n step)))"

definition adjust_price_to_precision :: "pynum \<Rightarrow> string \<Rightarrow> pyerr + pynum" where
  "adjust_price_to_precision price symbol =
     (case map_of SYMBOL_PRECISION symbol of
        None \<Rightarrow> Inr price
      | Some p \<Rightarrow> round_to_step price (price_step p))"

definition adjust_size_to_precision :: "pynum \<Rightarrow> string \<Rightarrow> pyerr + pynum" where
  "adjust_size_to_precision sz symbol =
     (case map_of SYMBOL_PRECISION symbol of
        None \<Rightarrow> Inr sz
      | Some p \<Rightarrow>
          (case round_to_step sz (size_step p) of
             Inl e \<Rightarrow> Inl e
           | Inr adjusted \<Rightarrow> Inr (py_max adjusted (min_size p))))"

section \<open>Text\<close>

text \<open>
  A Python \<open>str\<close> is modelled by the list of the bytes of its UTF-8 encoding, so that
  \<open>encode()\<close> keeps the representation. Functions that look inside characters
  (\<open>upper\<close>, the digits of a number) act on ASCII.
\<close>

definition digit_char :: "nat \<Rightarrow> char" where
  "digit_char d = char_of (48 + d)"

text \<open>The decimal digits of a non-negative int, most significant first.\<close>

function digits_of :: "int \<Rightarrow> nat list" where
  "digits_of n = (if n < 10 then [nat n] else digits_of (n div 10) @ [nat (n mod 10)])"
  by pat_completeness auto
termination
  by (relation "measure nat") auto

declare digits_of.simps [simp del]

definition str_of_nat :: "int \<Rightarrow> string" where
  "str_of_nat n = map digit_char (digits_of n)"

definition str_of_int :: "int \<Rightarrow> string" where
  "str_of_int i = (if i < 0 then CHR ''-'' # str_of_nat (- i) else str_of_nat i)"

text \<open>The number of decimal digits of a positive int (0 for others).\<close>

function declen :: "int \<Rightarrow> int" where
  "declen n = (if n \<le> 0 then 0 else declen (n div 10) + 1)"
  by pat_completeness auto
termination
  by (relation "measure nat") auto

declare declen.simps [simp del]

definition upper_char :: "char \<Rightarrow> char" where
  "upper_char c =
     (let n = (of_char c :: nat) in if 97 \<le> n \<and> n \<le> 122 then char_of (n - 32) else c)"

definition py_upper :: "string \<Rightarrow> string" where
  "py_upper s = map upper_char s"

text \<open>\<open>s.rstrip('0')\<close> and the last field of \<open>s.split('.')\<close>.\<close>

definition rstrip_zeros :: "string \<Rightarrow> string" where
  "rstrip_zeros s = rev (dropWhile (\<lambda>c. c = CHR ''0'') (rev s))"

definition after_last_dot :: "string \<Rightarrow> string" where
  "after_last_dot s = rev (takeWhile (\<lambda>c. c \<noteq> CHR ''.'') (rev s))"

subsection \<open>\<open>repr\<close> of a float\<close>

text \<open>For \<open>0 < x\<close>, the exponent \<open>e\<close> with \<open>10 powi e \<le> x < 10 powi (e + 1)\<close>.\<close>

definition ilog10 :: "rat \<Rightarrow> int" where
  "ilog10 x =
     (if 1 \<le> x then declen \<lfloor>x\<rfloor> - 1 else - declen (\<lceil>1 / x\<rceil> - 1))"

text \<open>
  The decimals with \<open>k\<close> significant digits next to \<open>x\<close> (below and above) that read
  back as the double \<open>x\<close>, the nearer one first.
\<close>

definition round_trip_candidates :: "rat \<Rightarrow> nat \<Rightarrow> (int \<times> int) list" where
  "round_trip_candidates x k =
     (let p = ilog10 x - int k + 1;
          lo = \<lfloor>x / 10 powi p\<rfloor>;
          below = of_int lo * 10 powi p;
          above = of_int (lo + 1) * 10 powi p;
          ordered = (if x - below \<le> above - x then [lo, lo + 1] else [lo + 1, lo])
      in map (\<lambda>m. (m, p)) (filter (\<lambda>m. to_double (of_int m * 10 powi p) = Finite x) ordered))"

text \<open>
  The shortest digit string that reads back as \<open>x\<close>: tried with 1, 2, ... digits; 17
  digits always suffice for a double.
\<close>

fun shortest_from :: "rat \<Rightarrow> nat \<Rightarrow> nat \<Rightarrow> (int \<times> int)" where
  "shortest_from x k 0 = (\<lfloor>x / 10 powi (ilog10 x - 16)\<rfloor>, ilog10 x - 16)"
| "shortest_from x k (Suc fuel) =
     (case round_trip_candidates x k of
        c # _ \<Rightarrow> c
      | [] \<Rightarrow> shortest_from x (Suc k) fuel)"

text \<open>Digits without trailing zeros and the position of the decimal point before them.\<close>

definition shortest_digits :: "rat \<Rightarrow> string \<times> int" where
  "shortest_digits x =
     (let (m, p) = shortest_from x 1 17;
          ds = str_of_nat m;
          stripped = rstrip_zeros ds
      in (stripped, int (length ds) + p))"

definition repr_positive :: "rat \<Rightarrow> string" where
  "repr_positive x =
     (let (ds, decpt) = shortest_digits x; n = int (length ds)
      in if decpt \<le> - 4 \<or> 16 < decpt then
           (let ex = decpt - 1;
                mant = (if n = 1 then ds else hd ds # CHR ''.'' # tl ds);
                exdig = str_of_nat \<bar>ex\<bar>
            in mant @ ''e'' @ (if ex < 0 then ''-'' else ''+'')
               @ (if length exdig < 2 then CHR ''0'' # exdig else exdig))
         else if decpt \<le> 0 then ''0.'' @ replicate (nat (- decpt)) CHR ''0'' @ ds
         else if n \<le> decpt then ds @ replicate (nat (decpt - n)) CHR ''0'' @ ''.0''
         else take (nat decpt) ds @ ''.'' @ drop (nat decpt) ds)"

definition float_repr :: "double \<Rightarrow> string" where
  "float_repr d =
     (case d of
        NaN \<Rightarrow> ''nan''
      | PosInf \<Rightarrow> ''inf''
      | NegInf \<Rightarrow> ''-inf''
      | NegZero \<Rightarrow> ''-0.0''
      | Finite q \<Rightarrow>
          if q = 0 then ''0.0''
          else if q < 0 then CHR ''-'' # repr_positive (- q)
          else repr_positive q)"

definition py_str :: "pynum \<Rightarrow> string" where
  "py_str v = (case v of PInt n \<Rightarrow> str_of_int n | PFloat d \<Rightarrow> float_repr d)"

subsection \<open>Fixed-point formatting\<close>

text \<open>
  \<open>f"{x:.Nf}"\<close>: the exact value of the double rounded to \<open>N\<close> decimals, ties to
  even; the sign is written also when all digits are zero; no point when \<open>N = 0\<close>.
\<close>

definition fixed_digits :: "rat \<Rightarrow> nat \<Rightarrow> string" where
  "fixed_digits x n =
     (let r = round_half_even (x * 10 ^ n);
          ip = str_of_nat (r div 10 ^ n);
          fp = str_of_nat (r mod 10 ^ n)
      in if n = 0 then ip else ip @ ''.'' @ replicate (n - length fp) CHR ''0'' @ fp)"

definition format_fixed_double :: "double \<Rightarrow> nat \<Rightarrow> string" where
  "format_fixed_double d n =
     (case d of
        NaN \<Rightarrow> ''nan''
      | PosInf \<Rightarrow> ''inf''
      | NegInf \<Rightarrow> ''-inf''
      | NegZero \<Rightarrow> CHR ''-'' # fixed_digits 0 n
      | Finite q \<Rightarrow> if q < 0 then CHR ''-'' # fixed_digits (- q) n else fixed_digits q n)"

definition format_fixed :: "pynum \<Rightarrow> nat \<Rightarrow> pyerr + string" where
  "format_fixed v n =
     (case py_float v of Inl e \<Rightarrow> Inl e | Inr d \<Rightarrow> Inr (format_fixed_double d n))"

section \<open>Formatting a price\<close>

definition format_price_string_in :: "(string \<times> precision) list \<Rightarrow> pynum \<Rightarrow> string \<Rightarrow> pyerr + string" where
  "format_price_string_in table price symbol =
     (case map_of table symbol of
        None \<Rightarrow> Inr (py_str price)
      | Some p \<Rightarrow>
          (let decimal_places =
                 (if py_le (PInt 1) (price_step p) then 0
                  else length (after_last_dot (rstrip_zeros (py_str (price_step p)))))
           in format_fixed price decimal_places))"

definition format_price_string :: "pynum \<Rightarrow> string \<Rightarrow> pyerr + string" where
  "format_price_string price symbol = format_price_string_in SYMBOL_PRECISION price symbol"

section \<open>The signature\<close>

type_synonym bytes = "8 word list"

text \<open>\<open>s.encode()\<close>: the UTF-8 bytes, which are the representation itself.\<close>

definition encode :: "string \<Rightarrow> bytes" where
  "encode s = map (\<lambda>c. of_nat (of_char c)) s"

subsection \<open>SHA-256 (FIPS 180-4)\<close>

text \<open>
  The constants are defined as the standard describes them: the first 32 bits of the
  fractional parts of the cube roots (round constants) and of the square roots (initial
  hash value) of the first primes.
\<close>

function bisect_root :: "nat \<Rightarrow> int \<Rightarrow> int \<Rightarrow> int \<Rightarrow> int" where
  "bisect_root k n lo hi =
     (if hi \<le> lo + 1 then lo
      else (let mid = (lo + hi) div 2
            in if mid ^ k \<le> n then bisect_root k n mid hi else bisect_root k n lo mid))"
  by pat_completeness auto
termination
  by (relation "measure (\<lambda>(k, n, lo, hi). nat (hi - lo))") auto

declare bisect_root.simps [simp del]

text \<open>The integer part of the \<open>k\<close>-th root of \<open>n\<close>.\<close>

definition iroot :: "nat \<Rightarrow> int \<Rightarrow> int" where
  "iroot k n = bisect_root k n 0 (n + 1)"

definition is_prime :: "nat \<Rightarrow> bool" where
  "is_prime p = (2 \<le> p \<and> list_all (\<lambda>d. p mod d \<noteq> 0) [2..<p])"

definition first_primes :: "nat \<Rightarrow> nat list" where
  "first_primes n = take n (filter is_prime [2..<312])"

definition frac_root_bits :: "nat \<Rightarrow> nat \<Rightarrow> 32 word" where
  "frac_root_bits k p = word_of_int (iroot k (int p * 2 ^ (32 * k)))"

definition sha256_k :: "32 word list" where
  "sha256_k = map (frac_root_bits 3) (first_primes 64)"

definition sha256_h0 :: "32 word list" where
  "sha256_h0 = map (frac_root_bits 2) (first_primes 8)"

definition be32 :: "bytes \<Rightarrow> 32 word" where
  "be32 bs = foldl (\<lambda>acc b. push_bit 8 acc OR ucast b) 0 (take 4 bs)"

definition bytes_of_word32 :: "32 word \<Rightarrow> bytes" where
  "bytes_of_word32 w = map (\<lambda>i. ucast (drop_bit (8 * i) w)) [3, 2, 1, 0]"

definition bytes_of_len64 :: "nat \<Rightarrow> bytes" where
  "bytes_of_len64 n = map (\<lambda>i. ucast (drop_bit (8 * i) (of_nat n :: 64 word))) [7, 6, 5, 4, 3, 2, 1, 0]"

definition sha256_pad :: "bytes \<Rightarrow> bytes" where
  "sha256_pad m =
     m @ [0x80] @ replicate ((119 - length m mod 64) mod 64) 0 @ bytes_of_len64 (8 * length m)"

fun chunks :: "nat \<Rightarrow> nat \<Rightarrow> 'a list \<Rightarrow> 'a list list" where
  "chunks 0 n xs = []"
| "chunks (Suc k) n xs = take n xs # chunks k n (drop n xs)"

definition small_sigma0 :: "32 word \<Rightarrow> 32 word" where
  "small_sigma0 x = word_rotr 7 x XOR word_rotr 18 x XOR drop_bit 3 x"

definition small_sigma1 :: "32 word \<Rightarrow> 32 word" where
  "small_sigma1 x = word_rotr 17 x XOR word_rotr 19 x XOR drop_bit 10 x"

definition big_sigma0 :: "32 word \<Rightarrow> 32 word" where
  "big_sigma0 x = word_rotr 2 x XOR word_rotr 13 x XOR word_rotr 22 x"

definition big_sigma1 :: "32 word \<Rightarrow> 32 word" where
  "big_sigma1 x = word_rotr 6 x XOR word_rotr 11 x XOR word_rotr 25 x"

text \<open>The message schedule, kept newest first while it is extended to 64 words.\<close>

fun extend_schedule :: "nat \<Rightarrow> 32 word list \<Rightarrow> 32 word list" where
  "extend_schedule 0 ws = ws"
| "extend_schedule (Suc k) ws =
     extend_schedule k
       ((small_sigma1 (ws ! 1) + ws ! 6 + small_sigma0 (ws ! 14) + ws ! 15) # ws)"

definition schedule :: "bytes \<Rightarrow> 32 word list" where
  "schedule block = rev (extend_schedule 48 (rev (map be32 (chunks 16 4 block))))"

definition sha256_round :: "32 word list \<Rightarrow> 32 word \<times> 32 word \<Rightarrow> 32 word list" where
  "sha256_round s kw =
     (case s of
        [a, b, c, d, e, f, g, h] \<Rightarrow>
          (let t1 = h + big_sigma1 e + ((e AND f) XOR (NOT e AND g)) + fst kw + snd kw;
               t2 = big_sigma0 a + ((a AND b) XOR (a AND c) XOR (b AND c))
           in [t1 + t2, a, b, c, d + t1, e, f, g])
      | _ \<Rightarrow> s)"

definition sha256_compress :: "32 word list \<Rightarrow> bytes \<Rightarrow> 32 word list" where
  "sha256_compress h block =
     map2 (+) h (foldl sha256_round h (zip sha256_k (schedule block)))"

definition sha256 :: "bytes \<Rightarrow> bytes" where
  "sha256 m =
     (let p = sha256_pad m
      in concat (map bytes_of_word32
           (foldl sha256_compress sha256_h0 (chunks (length p div 64) 64 p))))"

subsection \<open>HMAC (RFC 2104) and base64 (RFC 4648)\<close>

definition hmac_sha256 :: "bytes \<Rightarrow> bytes \<Rightarrow> bytes" where
  "hmac_sha256 key msg =
     (let k0 = (if 64 < length key then sha256 key else key);
          k = k0 @ replicate (64 - length k0) 0
      in sha256 (map (\<lambda>b. b XOR 0x5c) k @ sha256 (map (\<lambda>b. b XOR 0x36) k @ msg)))"

definition b64_alphabet :: string where
  "b64_alphabet = ''ABCDEFGHIJKLMNOPQRSTUVWXYZabcdefghijklmnopqrstuvwxyz0123456789+/''"

definition b64_char :: "int \<Rightarrow> char" where
  "b64_char i = b64_alphabet ! nat (i mod 64)"

fun b64encode :: "bytes \<Rightarrow> string" where
  "b64encode (a # b # c # rest) =
     (let n = uint a * 65536 + uint b * 256 + uint c
      in b64_char (n div 262144) # b64_char (n div 4096) # b64_char (n div 64) # b64_char n
         # b64encode rest)"
| "b64encode [a, b] =
     (let n = uint a * 65536 + uint b * 256
      in [b64_char (n div 262144), b64_char (n div 4096), b64_char (n div 64), CHR ''='']) "
| "b64encode [a] =
     (let n = uint a * 65536
      in [b64_char (n div 262144), b64_char (n div 4096), CHR ''='', CHR ''=''])"
| "b64encode [] = []"

subsection \<open>\<open>generate_signature\<close>\<close>

definition generate_signature :: "string \<Rightarrow> string \<Rightarrow> string \<Rightarrow> string \<Rightarrow> string \<Rightarrow> string \<Rightarrow> string" where
  "generate_signature secret_key timestamp method request_path query_string body =
     (let message = timestamp @ py_upper method @ request_path @ query_string @ body;
          signature = hmac_sha256 (encode secret_key) (encode message)
      in b64encode signature)"

section \<open>JSON values\<close>

datatype json =
    JNull
  | JBool bool
  | JNum pynum
  | JStr string
  | JArr "json list"
  | JObj "(string \<times> json) list"

text \<open>Truth value of a Python object decoded from JSON.\<close>

fun py_truthy :: "json \<Rightarrow> bool" where
  "py_truthy JNull = False"
| "py_truthy (JBool b) = b"
| "py_truthy (JNum (PInt n)) = (n \<noteq> 0)"
| "py_truthy (JNum (PFloat d)) = (\<not> is_zero d)"
| "py_truthy (JStr s) = (s \<noteq> [])"
| "py_truthy (JArr xs) = (xs \<noteq> [])"
| "py_truthy (JObj kvs) = (kvs \<noteq> [])"

text \<open>\<open>d.get(k)\<close> and \<open>a or b\<close>.\<close>

definition dict_get :: "(string \<times> json) list \<Rightarrow> string \<Rightarrow> json" where
  "dict_get d k = (case map_of d k of Some v \<Rightarrow> v | None \<Rightarrow> JNull)"

definition py_or :: "json \<Rightarrow> json \<Rightarrow> json" where
  "py_or a b = (if py_truthy a then a else b)"

subsection \<open>\<open>json.dumps\<close> with its defaults\<close>

definition hex_digit :: "nat \<Rightarrow> char" where
  "hex_digit d = ''0123456789abcdef'' ! (d mod 16)"

definition hex4 :: "nat \<Rightarrow> string" where
  "hex4 n = [hex_digit (n div 4096), hex_digit (n div 256), hex_digit (n div 16), hex_digit n]"

text \<open>The code points of UTF-8 bytes; a byte outside a well-formed sequence stands for itself.\<close>

fun utf8_decode :: "nat list \<Rightarrow> nat list" where
  "utf8_decode [] = []"
| "utf8_decode (b # bs) =
     (if 240 \<le> b \<and> 3 \<le> length bs then
        ((b - 240) * 262144 + (bs ! 0 - 128) * 4096 + (bs ! 1 - 128) * 64 + (bs ! 2 - 128))
          # utf8_decode (drop 3 bs)
      else if 224 \<le> b \<and> b < 240 \<and> 2 \<le> length bs then
        ((b - 224) * 4096 + (bs ! 0 - 128) * 64 + (bs ! 1 - 128)) # utf8_decode (drop 2 bs)
      else if 192 \<le> b \<and> b < 224 \<and> 1 \<le> length bs then
        ((b - 192) * 64 + (bs ! 0 - 128)) # utf8_decode (drop 1 bs)
      else b # utf8_decode bs)"

definition json_escape :: "nat \<Rightarrow> string" where
  "json_escape cp =
     (if cp = 34 then [CHR 0x5C, CHR 0x22]
      else if cp = 92 then [CHR 0x5C, CHR 0x5C]
      else if cp = 10 then [CHR 0x5C, CHR ''n'']
      else if cp = 13 then [CHR 0x5C, CHR ''r'']
      else if cp = 9 then [CHR 0x5C, CHR ''t'']
      else if cp = 8 then [CHR 0x5C, CHR ''b'']
      else if cp = 12 then [CHR 0x5C, CHR ''f'']
      else if 32 \<le> cp \<and> cp \<le> 126 then [char_of cp]
      else if cp < 65536 then [CHR 0x5C, CHR ''u''] @ hex4 cp
      else [CHR 0x5C, CHR ''u''] @ hex4 (55296 + (cp - 65536) div 1024)
           @ [CHR 0x5C, CHR ''u''] @ hex4 (56320 + (cp - 65536) mod 1024))"

definition json_string :: "string \<Rightarrow> string" where
  "json_string s =
     [CHR 0x22] @ concat (map json_escape (utf8_decode (map of_char s))) @ [CHR 0x22]"

definition json_number :: "pynum \<Rightarrow> string" where
  "json_number v =
     (case v of
        PInt n \<Rightarrow> str_of_int n
      | PFloat NaN \<Rightarrow> ''NaN''
      | PFloat PosInf \<Rightarrow> ''Infinity''
      | PFloat NegInf \<Rightarrow> ''-Infinity''
      | PFloat d \<Rightarrow> float_repr d)"

fun join :: "string \<Rightarrow> string list \<Rightarrow> string" where
  "join sep [] = []"
| "join sep [x] = x"
| "join sep (x # y # ys) = x @ sep @ join sep (y # ys)"

fun json_dumps :: "json \<Rightarrow> string" where
  "json_dumps JNull = ''null''"
| "json_dumps (JBool b) = (if b then ''true'' else ''false'')"
| "json_dumps (JNum v) = json_number v"
| "json_dumps (JStr s) = json_string s"
| "json_dumps (JArr xs) = ''['' @ join '', '' (map json_dumps xs) @ '']''"
| "json_dumps (JObj kvs) =
     ''{'' @ join '', '' (map (\<lambda>kv. json_string (fst kv) @ '': '' @ json_dumps (snd kv)) kvs) @ ''}''"

section \<open>The world outside the program\<close>

record request =
  rq_verb :: string
  rq_url :: string
  rq_headers :: "(string \<times> string) list"
  rq_data :: "string option"
  rq_proxies :: "(string \<times> string) list option"

record response =
  status_code :: int
  body_text :: string
  json_body :: "json option"
  resp_headers :: "(string \<times> string) list"

text \<open>
  The credentials and addresses read from the environment when the module is loaded.
  The module exits unless the three credentials are non-empty.
\<close>

record config =
  api_key :: string
  secret_key :: string
  access_passphrase :: string
  proxy_url :: "string option"
  BASE_URL :: string

text \<open>
  What the program cannot decide: the reply (or the exception) of the HTTP library to
  the \<open>k\<close>-th request, the \<open>k\<close>-th reading of the clock as whole milliseconds, and
  \<open>float(s)\<close> on a string (\<open>None\<close>: ValueError). \<open>json_body\<close> of a response is what
  \<open>response.json()\<close> returns, \<open>None\<close> when it raises.
\<close>

record env =
  transport :: "nat \<Rightarrow> request \<Rightarrow> pyerr + response"
  clock_ms :: "nat \<Rightarrow> int"
  float_of_str :: "string \<Rightarrow> double option"

text \<open>The message kept with a failed position query.\<close>

datatype errmsg = QueryFailed pyerr | Message json

text \<open>
  Standard output. A constructor stands for one print statement, or one block of
  consecutive print statements, and carries the values written; the fixed texts are
  left out.
\<close>

datatype order_result = OrderId json | OrderUnknown | NoOrder

datatype event =
    RequestDetails string string string "(string \<times> string) list" string "string option"
  | ResponseDetails int "(string \<times> string) list" string
  | ResponseBanner
  | MissingPrice
  | OrderParams string string string string string pynum pynum "(pynum \<times> string) option" string
  | OrderCreated json
  | OrderMaybeCreated json
  | OrderFailed int "json option" string
  | PositionQueryFailed errmsg
  | PositionFailed string errmsg "json option" string
  | FetchingAllPositions
  | PartialFailures "(string \<times> errmsg) list"

record world =
  sent :: "request list"
  clock_reads :: nat
  printed :: "event list"

definition emit :: "event \<Rightarrow> world \<Rightarrow> world" where
  "emit e w = w\<lparr>printed := printed w @ [e]\<rparr>"

text \<open>\<open>str(int(time.time() * 1000))\<close>\<close>

definition now_ms :: "env \<Rightarrow> world \<Rightarrow> string \<times> world" where
  "now_ms en w = (str_of_int (clock_ms en (clock_reads w)), w\<lparr>clock_reads := Suc (clock_reads w)\<rparr>)"

text \<open>One call of \<open>requests.get\<close> or \<open>requests.post\<close>: the attempt is recorded.\<close>

definition http_call :: "env \<Rightarrow> request \<Rightarrow> world \<Rightarrow> (pyerr + response) \<times> world" where
  "http_call en rq w = (transport en (length (sent w)) rq, w\<lparr>sent := sent w @ [rq]\<rparr>)"

section \<open>Sending a request\<close>

definition startswith :: "string \<Rightarrow> string \<Rightarrow> bool" where
  "startswith s p = (take (length p) s = p)"

definition after_last :: "char \<Rightarrow> string \<Rightarrow> string" where
  "after_last c s = rev (takeWhile (\<lambda>x. x \<noteq> c) (rev s))"

text \<open>The values of the local variables \<open>headers\<close>, \<open>url\<close>, \<open>proxies\<close> and \<open>masked_headers\<close>.\<close>

definition request_headers :: "config \<Rightarrow> string \<Rightarrow> string \<Rightarrow> (string \<times> string) list" where
  "request_headers cfg signature timestamp =
     [(''ACCESS-KEY'', api_key cfg),
      (''ACCESS-SIGN'', signature),
      (''ACCESS-TIMESTAMP'', timestamp),
      (''ACCESS-PASSPHRASE'', access_passphrase cfg),
      (''Content-Type'', ''application/json''),
      (''locale'', ''zh-CN'')]"

definition request_url :: "config \<Rightarrow> string \<Rightarrow> string \<Rightarrow> string" where
  "request_url cfg request_path query_string =
     BASE_URL cfg @ request_path
     @ (if query_string = [] then []
        else if startswith query_string ''?'' then query_string
        else ''?'' @ query_string)"

definition request_proxies :: "config \<Rightarrow> (string \<times> string) list option" where
  "request_proxies cfg =
     (case proxy_url cfg of
        None \<Rightarrow> None
      | Some p \<Rightarrow> if p = [] then None else Some [(''http'', p), (''https'', p)])"

definition masked_headers :: "config \<Rightarrow> string \<Rightarrow> string \<Rightarrow> (string \<times> string) list" where
  "masked_headers cfg signature timestamp =
     [(''ACCESS-KEY'', take 10 (api_key cfg) @ ''***''),
      (''ACCESS-SIGN'', take 20 signature @ ''***''),
      (''ACCESS-TIMESTAMP'', timestamp),
      (''ACCESS-PASSPHRASE'', ''***''),
      (''Content-Type'', ''application/json''),
      (''locale'', ''zh-CN'')]"

definition send_request ::
  "config \<Rightarrow> env \<Rightarrow> string \<Rightarrow> string \<Rightarrow> string \<Rightarrow> json option \<Rightarrow> bool \<Rightarrow> world
   \<Rightarrow> (pyerr + response) \<times> world" where
  "send_request cfg en method request_path query_string body verbose w =
     (let (timestamp, w1) = now_ms en w;
          body_str = (case body of None \<Rightarrow> [] | Some b \<Rightarrow> if py_truthy b then json_dumps b else []);
          signature = generate_signature (secret_key cfg) timestamp method request_path query_string body_str;
          headers = request_headers cfg signature timestamp;
          url = request_url cfg request_path query_string;
          proxies = request_proxies cfg;
          w2 = (if verbose
                then emit (RequestDetails request_path url method
                            (masked_headers cfg signature timestamp) body_str
                            (case proxies of None \<Rightarrow> None
                             | Some _ \<Rightarrow> map_option (after_last CHR ''@'') (proxy_url cfg))) w1
                else w1)
      in if method = ''GET'' \<or> method = ''POST'' then
           (let rq = \<lparr>rq_verb = method, rq_url = url, rq_headers = headers,
                      rq_data = (if method = ''POST'' then Some body_str else None),
                      rq_proxies = proxies\<rparr>;
                (reply, w3) = http_call en rq w2
            in case reply of
                 Inl e \<Rightarrow> (Inl e, w3)
               | Inr r \<Rightarrow>
                   (Inr r,
                    if verbose then emit (ResponseDetails (status_code r) (resp_headers r) (body_text r)) w3
                    else w3))
         else (Inl UnboundLocalError, if verbose then emit ResponseBanner w2 else w2))"

section \<open>Placing an order\<close>

text \<open>
  The parts of \<open>place_order\<close>: the request body before the price is added, the value
  of the price field (\<open>None\<close> when a limit order has no price), and what is made of
  the reply.
\<close>

definition order_body :: "string \<Rightarrow> string \<Rightarrow> pynum \<Rightarrow> string \<Rightarrow> string \<Rightarrow> (string \<times> json) list" where
  "order_body symbol client_oid adjusted_size side order_type =
     (let side_type = (if side = ''buy'' then ''1'' else ''2'');
          match_price = (if order_type = ''market'' then ''1'' else ''0'')
      in [(''symbol'', JStr symbol),
          (''client_oid'', JStr client_oid),
          (''size'', JStr (py_str adjusted_size)),
          (''type'', JStr side_type),
          (''order_type'', JStr ''0''),
          (''match_price'', JStr match_price)])"

definition order_price :: "string \<Rightarrow> string \<Rightarrow> pynum option \<Rightarrow> pyerr + string option" where
  "order_price symbol order_type price =
     (if order_type = ''limit'' then
        (case price of
           None \<Rightarrow> Inr None
         | Some p \<Rightarrow>
             (case adjust_price_to_precision p symbol of
                Inl e \<Rightarrow> Inl e
              | Inr adjusted_price \<Rightarrow>
                  (case format_price_string adjusted_price symbol of
                     Inl e \<Rightarrow> Inl e
                   | Inr s \<Rightarrow> Inr (Some s))))
      else Inr (Some ''0''))"

definition order_outcome :: "response \<Rightarrow> world \<Rightarrow> (pyerr + order_result) \<times> world" where
  "order_outcome r w =
     (if status_code r = 200 then
        (case json_body r of
           None \<Rightarrow> (Inl JSONDecodeError, w)
         | Some data \<Rightarrow>
             (let order_id =
                    (case data of
                       JObj d \<Rightarrow>
                         py_or (dict_get d ''order_id'')
                           (py_or (dict_get d ''orderId'') (dict_get d ''data''))
                     | _ \<Rightarrow> JNull)
              in if py_truthy order_id
                 then (Inr (OrderId order_id), emit (OrderCreated order_id) w)
                 else (Inr OrderUnknown, emit (OrderMaybeCreated data) w)))
      else (Inr NoOrder, emit (OrderFailed (status_code r) (json_body r) (body_text r)) w))"

definition order_params_event ::
  "string \<Rightarrow> string \<Rightarrow> string \<Rightarrow> pynum \<Rightarrow> pynum \<Rightarrow> pynum option \<Rightarrow> string \<Rightarrow> string \<Rightarrow> event" where
  "order_params_event symbol side order_type sz adjusted_size price price_str client_oid =
     OrderParams symbol side (if side = ''buy'' then ''1'' else ''2'') order_type
       (if order_type = ''market'' then ''1'' else ''0'') sz adjusted_size
       (case price of
          None \<Rightarrow> None
        | Some p \<Rightarrow> if py_truthy (JNum p) then Some (p, price_str) else None)
       client_oid"

definition place_order ::
  "config \<Rightarrow> env \<Rightarrow> string \<Rightarrow> string \<Rightarrow> string \<Rightarrow> pynum \<Rightarrow> pynum option \<Rightarrow> bool \<Rightarrow> world
   \<Rightarrow> (pyerr + order_result) \<times> world" where
  "place_order cfg en symbol side order_type sz price verbose w =
     (case adjust_size_to_precision sz symbol of
        Inl e \<Rightarrow> (Inl e, w)
      | Inr adjusted_size \<Rightarrow>
          (let (client_oid, w1) = now_ms en w;
               body = order_body symbol client_oid adjusted_size side order_type
           in case order_price symbol order_type price of
                Inl e \<Rightarrow> (Inl e, w1)
              | Inr None \<Rightarrow> (Inr NoOrder, emit MissingPrice w1)
              | Inr (Some price_str) \<Rightarrow>
                  (let body' = body @ [(''price'', JStr price_str)];
                       w2 = (if verbose
                             then emit (order_params_event symbol side order_type sz adjusted_size
                                          price price_str client_oid) w1
                             else w1);
                       (reply, w3) = send_request cfg en ''POST'' ''/capi/v2/order/placeOrder'' []
                                       (Some (JObj body')) verbose w2
                   in case reply of
                        Inl e \<Rightarrow> (Inl e, w3)
                      | Inr r \<Rightarrow> order_outcome r w3)))"

section \<open>Positions\<close>








section \<open>Notions used in the statements\<close>





definition replies_to :: "env \<Rightarrow> nat \<Rightarrow> request list \<Rightarrow> (pyerr + response) list" where
  "replies_to en k new = map (\<lambda>i. transport en (k + i) (new ! i)) [0..<length new]"


text \<open>A concrete configuration, environment and initial world, for the examples.\<close>

definition demo_config :: config where
  "demo_config = \<lparr>api_key = ''key'', secret_key = ''secret'', access_passphrase = ''pass'',
                   proxy_url = None, BASE_URL = ''https://api-contract.weex.com''\<rparr>"

definition demo_world :: world where
  "demo_world = \<lparr>sent = [], clock_reads = 0, printed = []\<rparr>"

definition demo_response :: "int \<Rightarrow> json option \<Rightarrow> response" where
  "demo_response code body = \<lparr>status_code = code, body_text = [], json_body = body, resp_headers = []\<rparr>"

definition demo_env :: env where
  "demo_env = \<lparr>transport = (\<lambda>k rq. if k = 0 then Inl (TransportError ''timed out'')
                                     else if k = 1 then Inr (demo_response 500 None)
                                     else Inr (demo_response 200 (Some (JObj [])))),
                clock_ms = (\<lambda>k. 1700000000000),
                float_of_str = (\<lambda>s. None)\<rparr>"

section \<open>Facts about rounding\<close>

lemma round_half_even_of_int [simp]: "round_half_even (of_int n) = n"
  by (simp add: round_half_even_def)

lemma round_half_even_error: "\<bar>of_int (round_half_even x) - x\<bar> \<le> 1 / 2"
  unfolding round_half_even_def Let_def by (auto simp: abs_if) linarith+

lemma round_half_even_mono: "x \<le> y \<Longrightarrow> round_half_even x \<le> round_half_even y"
proof -
  assume xy: "x \<le> y"
  have fl: "\<lfloor>x\<rfloor> \<le> \<lfloor>y\<rfloor>" using xy by (rule floor_mono)
  show ?thesis
  proof (cases "\<lfloor>x\<rfloor> = \<lfloor>y\<rfloor>")
    case True
    then show ?thesis using xy unfolding round_half_even_def Let_def by auto
  next
    case False
    then have "\<lfloor>x\<rfloor> + 1 \<le> \<lfloor>y\<rfloor>" using fl by linarith
    moreover have "round_half_even x \<le> \<lfloor>x\<rfloor> + 1" unfolding round_half_even_def Let_def by auto
    moreover have "\<lfloor>y\<rfloor> \<le> round_half_even y" unfolding round_half_even_def Let_def by auto
    ultimately show ?thesis by linarith
  qed
qed

lemma ilog2_bounds:
  assumes "0 < x"
  shows "2 powi ilog2 x \<le> x \<and> x < 2 powi (ilog2 x + 1)"
proof (cases "1 \<le> x")
  case True
  define n where "n = \<lfloor>x\<rfloor>"
  have n1: "1 \<le> n" using True unfolding n_def by linarith
  then have n0: "0 < n" by linarith
  have k1: "1 \<le> bitlen n" using n0 bitlen_nonneg[of n] bitlen_eq_zero_iff[of n] by linarith
  from bitlen_bounds[OF n0] have b1: "2 ^ nat (bitlen n - 1) \<le> n" and b2: "n < 2 ^ nat (bitlen n)" by auto
  have e: "ilog2 x = bitlen n - 1" using True by (simp add: ilog2_def n_def)
  have "(2::rat) powi (bitlen n - 1) = 2 ^ nat (bitlen n - 1)" using k1 by (simp add: power_int_def)
  also have "\<dots> = of_int (2 ^ nat (bitlen n - 1))" by simp
  also have "\<dots> \<le> of_int n" using b1 by (simp only: of_int_le_iff)
  also have "\<dots> \<le> x" unfolding n_def by linarith
  finally have lo: "2 powi ilog2 x \<le> x" using e by simp
  have "n + 1 \<le> 2 ^ nat (bitlen n)" using b2 by linarith
  then have "(of_int (n + 1) :: rat) \<le> of_int (2 ^ nat (bitlen n))" by (simp only: of_int_le_iff)
  moreover have "x < of_int (n + 1)" unfolding n_def by linarith
  ultimately have "x < 2 ^ nat (bitlen n)" by simp
  also have "(2::rat) ^ nat (bitlen n) = 2 powi (bitlen n)" using k1 by (simp add: power_int_def)
  finally have hi: "x < 2 powi (ilog2 x + 1)" using e by simp
  show ?thesis using lo hi by simp
next
  case False
  then have x1: "x < 1" by simp
  define m where "m = \<lceil>1 / x\<rceil> - 1"
  have inv: "1 < 1 / x" using assms x1 by simp
  have m1: "1 \<le> m" using inv unfolding m_def by linarith
  then have m0: "0 < m" by linarith
  have k1: "1 \<le> bitlen m" using m0 bitlen_nonneg[of m] bitlen_eq_zero_iff[of m] by linarith
  from bitlen_bounds[OF m0] have b1: "2 ^ nat (bitlen m - 1) \<le> m" and b2: "m < 2 ^ nat (bitlen m)" by auto
  have e: "ilog2 x = - bitlen m" using False by (simp add: ilog2_def m_def)
  have mlt: "of_int m < 1 / x" unfolding m_def by linarith
  have mge: "1 / x \<le> of_int (m + 1)" unfolding m_def by simp
  have "m + 1 \<le> 2 ^ nat (bitlen m)" using b2 by linarith
  then have "(of_int (m + 1) :: rat) \<le> of_int (2 ^ nat (bitlen m))" by (simp only: of_int_le_iff)
  then have "1 / x \<le> 2 ^ nat (bitlen m)" using mge by simp
  then have "1 / 2 ^ nat (bitlen m) \<le> x" using assms
    by (metis (no_types, opaque_lifting) divide_le_eq mult.commute zero_less_numeral zero_less_power)
  moreover have "(2::rat) powi (- bitlen m) = 1 / 2 ^ nat (bitlen m)"
    using k1 by (simp add: power_int_def field_simps)
  ultimately have lo: "2 powi ilog2 x \<le> x" using e by simp
  have "(of_int (2 ^ nat (bitlen m - 1)) :: rat) \<le> of_int m" using b1 by (simp only: of_int_le_iff)
  then have "(2::rat) ^ nat (bitlen m - 1) \<le> of_int m" by simp
  then have "2 ^ nat (bitlen m - 1) < 1 / x" using mlt by linarith
  then have "x < 1 / 2 ^ nat (bitlen m - 1)" using assms
    by (metis (no_types, opaque_lifting) less_divide_eq mult.commute zero_less_numeral zero_less_power)
  moreover have "(2::rat) powi (- bitlen m + 1) = 1 / 2 ^ nat (bitlen m - 1)"
    using k1 by (simp add: power_int_def field_simps)
  ultimately have hi: "x < 2 powi (ilog2 x + 1)" using e by simp
  show ?thesis using lo hi by simp
qed

lemma round_half_even_0 [simp]: "round_half_even 0 = 0"
  using round_half_even_of_int[of 0] by simp

lemma round_half_even_minus: "round_half_even (- x) = - round_half_even x"
proof -
  have "\<lfloor>- x\<rfloor> = - \<lceil>x\<rceil>" by (simp add: ceiling_def)
  show ?thesis
  proof (cases "x = of_int \<lfloor>x\<rfloor>")
    case True
    then obtain n where "x = of_int n" by metis
    then show ?thesis by (simp flip: of_int_minus)
  next
    case False
    then have c: "\<lceil>x\<rceil> = \<lfloor>x\<rfloor> + 1" by (metis ceiling_altdef)
    have f: "\<lfloor>- x\<rfloor> = - \<lfloor>x\<rfloor> - 1" using c by (simp add: ceiling_def)
    show ?thesis unfolding round_half_even_def Let_def f
      by (auto simp: field_simps) 
  qed
qed

lemma spacing_pos: "0 < spacing x"
  by (simp add: spacing_def)

lemma spacing_minus [simp]: "spacing (- x) = spacing x"
  by (simp add: spacing_def)

lemma nearest_minus: "nearest (- x) = - nearest x"
  by (simp add: nearest_def round_half_even_minus)

lemma nearest_error: "\<bar>nearest x - x\<bar> \<le> spacing x / 2"
proof -
  let ?u = "spacing x"
  have u: "0 < ?u" by (rule spacing_pos)
  have "nearest x - x = (of_int (round_half_even (x / ?u)) - x / ?u) * ?u"
    using u by (simp add: nearest_def field_simps)
  then have "\<bar>nearest x - x\<bar> = \<bar>of_int (round_half_even (x / ?u)) - x / ?u\<bar> * ?u"
    using u by (simp add: abs_mult)
  also have "\<dots> \<le> (1 / 2) * ?u"
    using round_half_even_error[of "x / ?u"] u by (intro mult_right_mono) auto
  finally show ?thesis by simp
qed

lemma nearest_nonneg: "0 \<le> x \<Longrightarrow> 0 \<le> nearest x"
proof -
  assume "0 \<le> x"
  then have "0 \<le> x / spacing x" using spacing_pos[of x] by simp
  then have "round_half_even 0 \<le> round_half_even (x / spacing x)" by (rule round_half_even_mono)
  then show ?thesis using spacing_pos[of x] by (simp add: nearest_def)
qed

lemma nearest_nonpos: "x \<le> 0 \<Longrightarrow> nearest x \<le> 0"
  using nearest_nonneg[of "- x"] by (simp add: nearest_minus)

lemma powi2_less_iff: "(2::rat) powi a < 2 powi b \<longleftrightarrow> a < b"
proof
  assume l: "(2::rat) powi a < 2 powi b"
  show "a < b"
  proof (rule ccontr)
    assume "\<not> a < b"
    then have "b \<le> a" by simp
    then have "(2::rat) powi b \<le> 2 powi a" by (intro power_int_increasing) auto
    then show False using l by simp
  qed
next
  assume "a < b"
  then show "(2::rat) powi a < 2 powi b" by (intro power_int_strict_increasing) auto
qed

lemma powi2_le_iff: "(2::rat) powi a \<le> 2 powi b \<longleftrightarrow> a \<le> b"
  using powi2_less_iff[of b a] by (simp add: not_less[symmetric])

lemma powi2_pos: "0 < (2::rat) powi e"
  by simp

lemma ilog2_unique:
  assumes "2 powi e \<le> x" "x < 2 powi (e + 1)"
  shows "ilog2 x = e"
proof -
  have x0: "0 < x" using assms(1) by (smt (verit) zero_less_numeral zero_less_power_int less_le_trans)
  from ilog2_bounds[OF x0] have lo: "2 powi ilog2 x \<le> x" and hi: "x < 2 powi (ilog2 x + 1)" by auto
  have "(2::rat) powi e < 2 powi (ilog2 x + 1)" using assms(1) hi by linarith
  then have a: "e < ilog2 x + 1" by (simp only: powi2_less_iff)
  have "(2::rat) powi ilog2 x < 2 powi (e + 1)" using assms(2) lo by linarith
  then have b: "ilog2 x < e + 1" by (simp only: powi2_less_iff)
  show ?thesis using a b by linarith
qed

lemma ilog2_mono:
  assumes "0 < x" "x \<le> y"
  shows "ilog2 x \<le> ilog2 y"
proof -
  have y0: "0 < y" using assms by linarith
  from ilog2_bounds[OF assms(1)] have lo: "2 powi ilog2 x \<le> x" by auto
  from ilog2_bounds[OF y0] have hi: "y < 2 powi (ilog2 y + 1)" by auto
  have "(2::rat) powi ilog2 x < 2 powi (ilog2 y + 1)" using lo hi assms(2) by linarith
  then have "ilog2 x < ilog2 y + 1" by (simp only: powi2_less_iff)
  then show ?thesis by linarith
qed

lemma ilog2_ge:
  assumes "2 powi e \<le> x"
  shows "e \<le> ilog2 x"
proof -
  have x0: "0 < x" using assms by (smt (verit) zero_less_numeral zero_less_power_int less_le_trans)
  from ilog2_bounds[OF x0] have hi: "x < 2 powi (ilog2 x + 1)" by auto
  have "(2::rat) powi e < 2 powi (ilog2 x + 1)" using assms hi by linarith
  then have "e < ilog2 x + 1" by (simp only: powi2_less_iff)
  then show ?thesis by linarith
qed

lemma ilog2_less:
  assumes "0 < x" "x < 2 powi e"
  shows "ilog2 x < e"
proof -
  from ilog2_bounds[OF assms(1)] have lo: "2 powi ilog2 x \<le> x" by auto
  have "(2::rat) powi ilog2 x < 2 powi e" using assms lo by linarith
  then show ?thesis by (simp only: powi2_less_iff)
qed

text \<open>In the normal range the spacing is at most \<open>2 powi (-52)\<close> of the magnitude.\<close>

lemma spacing_normal:
  assumes "2 powi (- 1022) \<le> \<bar>x\<bar>"
  shows "spacing x \<le> \<bar>x\<bar> * 2 powi (- 52)"
proof -
  have x0: "0 < \<bar>x\<bar>" using assms by (smt (verit) zero_less_numeral zero_less_power_int less_le_trans)
  have ge: "- 1022 \<le> ilog2 \<bar>x\<bar>" using assms by (rule ilog2_ge)
  then have "spacing x = 2 powi (ilog2 \<bar>x\<bar> - 52)" by (simp add: spacing_def max_def)
  also have "\<dots> = 2 powi ilog2 \<bar>x\<bar> * 2 powi (- 52)"
    by (simp add: power_int_diff power_int_minus field_simps)
  also have "\<dots> \<le> \<bar>x\<bar> * 2 powi (- 52)"
    using ilog2_bounds[OF x0] by (intro mult_right_mono) auto
  finally show ?thesis .
qed

lemma nearest_rel_error:
  assumes "2 powi (- 1022) \<le> \<bar>x\<bar>"
  shows "\<bar>nearest x - x\<bar> \<le> \<bar>x\<bar> * 2 powi (- 53)"
proof -
  have "\<bar>nearest x - x\<bar> \<le> spacing x / 2" by (rule nearest_error)
  also have "\<dots> \<le> (\<bar>x\<bar> * 2 powi (- 52)) / 2" using spacing_normal[OF assms] by simp
  also have "\<dots> = \<bar>x\<bar> * 2 powi (- 53)" by (simp add: power_int_minus)
  finally show ?thesis .
qed

text \<open>A value that is a whole multiple of its own spacing is kept.\<close>

lemma nearest_multiple:
  assumes "x = of_int m * spacing x"
  shows "nearest x = x"
proof -
  have "x / spacing x = of_int m" using assms spacing_pos[of x]
    by (metis nonzero_mult_div_cancel_right less_irrefl)
  then show ?thesis using assms by (simp add: nearest_def)
qed

lemma nearest_int:
  assumes "\<bar>n\<bar> \<le> 2 ^ 53"
  shows "nearest (of_int n) = of_int n"
proof (cases "n = 0")
  case True
  then show ?thesis by (simp add: nearest_def)
next
  case False
  let ?x = "of_int n :: rat"
  have x0: "0 < \<bar>?x\<bar>" using False by simp
  have "(1::int) \<le> \<bar>n\<bar>" using False by simp
  then have "(of_int 1 :: rat) \<le> of_int \<bar>n\<bar>" by (simp only: of_int_le_iff)
  then have "(1::rat) \<le> of_int \<bar>n\<bar>" by simp
  then have "(2::rat) powi 0 \<le> \<bar>?x\<bar>" by simp
  then have e0: "0 \<le> ilog2 \<bar>?x\<bar>" by (rule ilog2_ge)
  show ?thesis
  proof (cases "\<bar>n\<bar> = 2 ^ 53")
    case True
    then have v: "\<bar>?x\<bar> = 2 ^ 53" by simp
    have "ilog2 \<bar>?x\<bar> = 53" 
    proof (rule ilog2_unique)
      show "2 powi 53 \<le> \<bar>?x\<bar>" unfolding v by simp
      show "\<bar>?x\<bar> < 2 powi (53 + 1)" unfolding v by simp
    qed
    then have sp: "spacing ?x = 2" by (simp add: spacing_def)
    have "n = 2 ^ 53 \<or> n = - (2 ^ 53)" using True by linarith
    then have "n = 2 * 2 ^ 52 \<or> n = 2 * (- (2 ^ 52))" by simp
    then obtain h where "n = 2 * h" by blast
    then have "?x = of_int h * spacing ?x" using sp by simp
    then show ?thesis by (rule nearest_multiple)
  next
    case ne: False
    then have "\<bar>n\<bar> < 2 ^ 53" using assms by linarith
    then have "(of_int \<bar>n\<bar> :: rat) < of_int (2 ^ 53)" by (simp only: of_int_less_iff)
    then have "\<bar>?x\<bar> < 2 powi 53" by simp
    then have e1: "ilog2 \<bar>?x\<bar> < 53" using x0 by (intro ilog2_less)
    define k where "k = nat (52 - ilog2 \<bar>?x\<bar>)"
    have "max (ilog2 \<bar>?x\<bar>) (- 1022) - 52 = - int k" using e0 e1 by (simp add: k_def max_def)
    then have sp: "spacing ?x = 1 / 2 ^ k" by (simp add: spacing_def power_int_minus_divide)
    have "?x = of_int (n * 2 ^ k) * spacing ?x" by (simp add: sp)
    then show ?thesis by (rule nearest_multiple)
  qed
qed

section \<open>Errors of the arithmetic\<close>

lemma to_double_nonzero_eq:
  "x \<noteq> 0 \<Longrightarrow> to_double x =
     (if 2 ^ 1024 \<le> \<bar>nearest x\<bar> then signed_inf (x < 0)
      else if nearest x = 0 then signed_zero (x < 0) else Finite (nearest x))"
  by (auto simp: to_double_def Let_def signed_inf_def signed_zero_def)

lemma to_double_not_NaN [simp]: "to_double x \<noteq> NaN"
  by (simp add: to_double_def Let_def)

lemma nearest_normal_nonzero:
  assumes "2 powi (- 1022) \<le> \<bar>x\<bar>"
  shows "nearest x \<noteq> 0"
proof
  assume z: "nearest x = 0"
  have x0: "0 < \<bar>x\<bar>" using assms powi2_pos[of "- 1022"] by linarith
  have "\<bar>x\<bar> \<le> \<bar>x\<bar> * 2 powi (- 53)" using nearest_rel_error[OF assms] z by simp
  moreover have "\<bar>x\<bar> * 2 powi (- 53) < \<bar>x\<bar> * 1"
    using x0 by (intro mult_strict_left_mono) (simp_all add: power_int_minus_divide)
  ultimately show False by simp
qed

lemma to_double_not_zero:
  assumes "2 powi (- 1022) \<le> \<bar>x\<bar>"
  shows "\<not> is_zero (to_double x)"
proof -
  have x0: "x \<noteq> 0" using assms powi2_pos[of "- 1022"] by auto
  show ?thesis using nearest_normal_nonzero[OF assms]
    by (simp add: to_double_nonzero_eq[OF x0] signed_inf_def)
qed

lemma to_double_of_int_not_zero:
  assumes "n \<noteq> 0"
  shows "\<not> is_zero (to_double (of_int n))"
proof (rule to_double_not_zero)
  have "(1::int) \<le> \<bar>n\<bar>" using assms by simp
  then have "(of_int 1 :: rat) \<le> of_int \<bar>n\<bar>" by (simp only: of_int_le_iff)
  then have "(1::rat) \<le> \<bar>of_int n\<bar>" by simp
  moreover have "(2::rat) powi (- 1022) \<le> 1" by (simp add: power_int_minus_divide)
  ultimately show "(2::rat) powi (- 1022) \<le> \<bar>of_int n\<bar>" by linarith
qed

lemma py_float_zero:
  "py_float b = Inr y \<Longrightarrow> is_zero y \<Longrightarrow> py_eq b (PInt 0)"
proof (cases b)
  case (PInt n)
  assume a: "py_float b = Inr y" "is_zero y"
  have "n = 0"
  proof (rule ccontr)
    assume "n \<noteq> 0"
    then have nz: "\<not> is_zero (to_double (of_int n))" by (rule to_double_of_int_not_zero)
    have "y = to_double (of_int n)" using a(1) PInt
      by (auto simp: py_float_def float_of_int_def split: double.splits)
    then show False using nz a(2) by simp
  qed
  then show ?thesis using PInt by (simp add: py_eq_def)
next
  case (PFloat d)
  assume "py_float b = Inr y" "is_zero y"
  then show ?thesis using PFloat by (cases d) (auto simp: py_float_def py_eq_def)
qed

lemma py_float_error: "py_float a = Inl e \<Longrightarrow> e = OverflowError"
  by (auto simp: py_float_def float_of_int_def split: pynum.splits double.splits)

lemma py_truediv_zero_division:
  assumes "py_truediv a b = Inl ZeroDivisionError"
  shows "py_eq b (PInt 0)"
proof (cases "\<exists>m n. a = PInt m \<and> b = PInt n")
  case True
  then obtain m n where ab: "a = PInt m" "b = PInt n" by blast
  have "n = 0" using assms unfolding ab py_truediv_def
    by (auto split: if_splits double.splits)
  then show ?thesis using ab by (simp add: py_eq_def)
next
  case False
  then have "py_truediv a b =
    (case py_float a of Inl e \<Rightarrow> Inl e
     | Inr x \<Rightarrow> (case py_float b of Inl e \<Rightarrow> Inl e
        | Inr y \<Rightarrow> if is_zero y then Inl ZeroDivisionError else Inr (PFloat (fdiv x y))))"
    by (cases a; cases b) (auto simp: py_truediv_def)
  with assms obtain x y where "py_float b = Inr y" "is_zero y"
    by (auto split: sum.splits if_splits dest: py_float_error)
  then show ?thesis by (rule py_float_zero)
qed

lemma py_eq_imp_le: "py_eq a b \<Longrightarrow> py_le a b"
  by (auto simp: py_eq_def py_le_def split: option.splits prod.splits)

lemma py_round_error: "py_round q = Inl e \<Longrightarrow> e = ValueError \<or> e = OverflowError"
  by (auto simp: py_round_def split: pynum.splits double.splits)

lemma py_mul_error: "py_mul a b = Inl e \<Longrightarrow> e = OverflowError"
  by (cases a; cases b) (auto simp: py_mul_def split: sum.splits dest: py_float_error)

section \<open>Evaluating the arithmetic on numerals\<close>

lemma bitlen_One [simp]: "bitlen 1 = 1"
  by (simp add: bitlen_alt_def)

lemma bitlen_Bit0 [simp]: "bitlen (numeral (Num.Bit0 n)) = bitlen (numeral n) + 1"
proof -
  have "bitlen (numeral (Num.Bit0 n)) = bitlen (numeral (Num.Bit0 n) div 2) + 1"
    by (subst compute_bitlen) simp
  then show ?thesis by simp
qed

lemma bitlen_Bit1 [simp]: "bitlen (numeral (Num.Bit1 n)) = bitlen (numeral n) + 1"
proof -
  have "bitlen (numeral (Num.Bit1 n)) = bitlen (numeral (Num.Bit1 n) div 2) + 1"
    by (subst compute_bitlen) simp
  then show ?thesis by simp
qed

lemma floor_numeral_div [simp]: "\<lfloor>numeral a / numeral b :: rat\<rfloor> = numeral a div numeral b"
  using floor_divide_of_int_eq [of "numeral a" "numeral b", where ?'a = rat] by simp

lemma floor_neg_numeral_div [simp]:
  "\<lfloor>- (numeral a / numeral b) :: rat\<rfloor> = (- numeral a) div numeral b"
  using floor_divide_of_int_eq [of "- numeral a" "numeral b", where ?'a = rat] by simp

lemma floor_one_div [simp]: "\<lfloor>1 / numeral b :: rat\<rfloor> = 1 div numeral b"
  using floor_divide_of_int_eq [of 1 "numeral b", where ?'a = rat] by simp

lemma floor_neg_one_div [simp]: "\<lfloor>- (1 / numeral b) :: rat\<rfloor> = (- 1) div numeral b"
  using floor_divide_of_int_eq [of "- 1" "numeral b", where ?'a = rat] by simp

lemma ceiling_numeral_div [simp]:
  "\<lceil>numeral a / numeral b :: rat\<rceil> = - ((- numeral a) div numeral b)"
  by (simp add: ceiling_def)

lemma ceiling_one_div [simp]: "\<lceil>1 / numeral b :: rat\<rceil> = - ((- 1) div numeral b)"
  by (simp add: ceiling_def)

lemmas dbl_eval = to_double_def nearest_def spacing_def ilog2_def round_half_even_def Let_def lit_def

lemma t1: "to_double (1/10) = Finite (3602879701896397 / 36028797018963968)"
  by (simp add: dbl_eval)

lemma t2: "lit (1/1000) = PFloat (Finite (1152921504606847 / 1152921504606846976))"
  by (simp add: dbl_eval)

lemma t3: "to_double 50 = Finite 50"
  by (simp add: dbl_eval)

section \<open>Requests that are sent\<close>

lemma now_ms_sent [simp]: "sent (snd (now_ms en w)) = sent w"
  by (simp add: now_ms_def)

lemma emit_sent [simp]: "sent (emit e w) = sent w"
  by (simp add: emit_def)

lemma order_price_limit_None [simp]: "order_price symbol ''limit'' None = Inr None"
  by (simp add: order_price_def)

lemma send_request_POST:
  "\<exists>rq. sent (snd (send_request cfg en ''POST'' path qs body verbose w)) = sent w @ [rq]
        \<and> rq_verb rq = ''POST''
        \<and> rq_data rq = Some (case body of None \<Rightarrow> [] | Some b \<Rightarrow> if py_truthy b then json_dumps b else [])
        \<and> fst (send_request cfg en ''POST'' path qs body verbose w) = transport en (length (sent w)) rq"
  by (simp add: send_request_def Let_def http_call_def now_ms_def emit_def split: prod.splits sum.splits)

lemma place_order_sent_cases:
  "sent (snd (place_order cfg en symbol side order_type sz price verbose w)) = sent w
   \<or> (\<exists>a price_str rq.
        adjust_size_to_precision sz symbol = Inr a
        \<and> order_price symbol order_type price = Inr (Some price_str)
        \<and> sent (snd (place_order cfg en symbol side order_type sz price verbose w)) = sent w @ [rq]
        \<and> rq_verb rq = ''POST''
        \<and> rq_data rq = Some (json_dumps (JObj
             (order_body symbol (str_of_int (clock_ms en (clock_reads w))) a side order_type
              @ [(''price'', JStr price_str)]))))"
proof (cases "adjust_size_to_precision sz symbol")
  case (Inl e)
  then show ?thesis by (simp add: place_order_def)
next
  case (Inr a)
  define w1 where "w1 = snd (now_ms en w)"
  define oid where "oid = str_of_int (clock_ms en (clock_reads w))"
  have nm: "now_ms en w = (oid, w1)" by (simp add: now_ms_def oid_def w1_def)
  have s1: "sent w1 = sent w" by (simp add: w1_def)
  show ?thesis
  proof (cases "order_price symbol order_type price")
    case (Inl e)
    then show ?thesis using Inr nm s1 by (simp add: place_order_def)
  next
    case pr: (Inr po)
    show ?thesis
    proof (cases po)
      case None
      then show ?thesis using Inr nm s1 pr by (simp add: place_order_def)
    next
      case (Some ps)
      define body where "body = JObj (order_body symbol oid a side order_type @ [(''price'', JStr ps)])"
      define w2 where "w2 = (if verbose
             then emit (order_params_event symbol side order_type sz a price ps oid) w1 else w1)"
      define res where "res = send_request cfg en ''POST'' ''/capi/v2/order/placeOrder'' [] (Some body) verbose w2"
      have s2: "sent w2 = sent w" by (simp add: w2_def s1)
      have tr: "py_truthy body" by (simp add: body_def)
      obtain rq where rq: "sent (snd res) = sent w2 @ [rq]"
        "rq_verb rq = ''POST''" "rq_data rq = Some (json_dumps body)"
        using send_request_POST[of cfg en "''/capi/v2/order/placeOrder''" "[]" "Some body" verbose w2] tr
        unfolding res_def by auto
      have po: "place_order cfg en symbol side order_type sz price verbose w =
          (case fst res of Inl e \<Rightarrow> (Inl e, snd res) | Inr r \<Rightarrow> order_outcome r (snd res))"
        using Inr nm pr Some
        by (cases verbose) (simp_all add: place_order_def Let_def case_prod_beta body_def w2_def res_def cong: sum.case_cong)
      have oo: "sent (snd (order_outcome r w')) = sent w'" for r w'
        by (simp add: order_outcome_def Let_def split: option.splits)
      have "sent (snd (place_order cfg en symbol side order_type sz price verbose w)) = sent (snd res)"
        unfolding po by (cases "fst res") (simp_all add: oo)
      then have "sent (snd (place_order cfg en symbol side order_type sz price verbose w)) = sent w @ [rq]"
        using rq(1) s2 by simp
      then show ?thesis using Inr pr Some rq(2,3) unfolding body_def oid_def by blast
    qed
  qed
qed

lemma doge_size_50: "adjust_size_to_precision (PFloat (Finite 50)) ''cmt_dogeusdt'' = Inr (PInt 100)"
  by (simp add: adjust_size_to_precision_def SYMBOL_PRECISION_def py_max_def py_lt_def
        dbl_eval round_to_step_def py_le_def py_truediv_def py_float_def float_of_int_def fdiv_def
        py_round_def py_mul_def)

lemma market_order_is_sent:
  assumes "adjust_size_to_precision sz symbol = Inr a"
  shows "sent (snd (place_order cfg en symbol side ''market'' sz price verbose w)) \<noteq> sent w"
proof -
  have p: "order_price symbol ''market'' price = Inr (Some ''0'')" by (simp add: order_price_def)
  define body where "body = JObj (order_body symbol (fst (now_ms en w)) a side ''market'' @ [(''price'', JStr ''0'')])"
  define w2 where "w2 = (if verbose
         then emit (order_params_event symbol side ''market'' sz a price ''0'' (fst (now_ms en w))) (snd (now_ms en w))
         else snd (now_ms en w))"
  define res where "res = send_request cfg en ''POST'' ''/capi/v2/order/placeOrder'' [] (Some body) verbose w2"
  have s2: "sent w2 = sent w" by (simp add: w2_def)
  obtain rq where rq: "sent (snd res) = sent w2 @ [rq]"
    using send_request_POST[of cfg en "''/capi/v2/order/placeOrder''" "[]" "Some body" verbose w2]
    unfolding res_def by auto
  have po: "place_order cfg en symbol side ''market'' sz price verbose w =
      (case fst res of Inl e \<Rightarrow> (Inl e, snd res) | Inr r \<Rightarrow> order_outcome r (snd res))"
    using assms p
    by (cases verbose) (simp_all add: place_order_def Let_def case_prod_beta body_def w2_def res_def cong: sum.case_cong)
  have oo: "sent (snd (order_outcome r w')) = sent w'" for r w'
    by (simp add: order_outcome_def Let_def split: option.splits)
  have "sent (snd (place_order cfg en symbol side ''market'' sz price verbose w)) = sent (snd res)"
    unfolding po by (cases "fst res") (simp_all add: oo)
  then show ?thesis using rq s2 by simp
qed

section \<open>The loop over all symbols\<close>

lemma replies_to_Nil [simp]: "replies_to en k [] = []"
  by (simp add: replies_to_def)

lemma replies_to_Cons [simp]:
  "replies_to en k (rq # new) = transport en k rq # replies_to en (Suc k) new"
proof -
  have "map (\<lambda>i. transport en (k + i) ((rq # new) ! i)) [0..<Suc (length new)] =
        transport en k rq # map (\<lambda>i. transport en (k + Suc i) ((rq # new) ! Suc i)) [0..<length new]"
    by (simp only: map_upt_Suc) simp
  then show ?thesis by (simp add: replies_to_def)
qed






section \<open>Rounding to a step: non-positive steps\<close>

text \<open>
  Claim C10. A step that is zero or negative is never used as a divisor:
  \<open>round_to_step\<close> returns the value it was given, unchanged. With a positive step the
  division is by a non-zero number, so on no input at all does the function end in a
  division by zero.
\<close>

theorem round_to_step_nonpositive_step:
  "(py_le step (PInt 0) \<longrightarrow> round_to_step v step = Inr v)
   \<and> round_to_step v step \<noteq> Inl ZeroDivisionError"
proof
  show "py_le step (PInt 0) \<longrightarrow> round_to_step v step = Inr v"
    by (simp add: round_to_step_def)
  show "round_to_step v step \<noteq> Inl ZeroDivisionError"
  proof (cases "py_le step (PInt 0)")
    case True
    then show ?thesis by (simp add: round_to_step_def)
  next
    case False
    then have nz: "py_truediv v step \<noteq> Inl ZeroDivisionError"
      using py_truediv_zero_division py_eq_imp_le by blast
    show ?thesis using False nz
      by (auto simp: round_to_step_def split: sum.splits dest: py_round_error py_mul_error)
  qed
qed

theorem round_to_step_nonpositive_step_witness:
  "py_le (PInt 0) (PInt 0)
   \<and> round_to_step (PFloat (Finite (3 / 2))) (PInt 0) = Inr (PFloat (Finite (3 / 2)))
   \<and> round_to_step (PFloat (Finite (3 / 2))) (PInt 0) \<noteq> Inl ZeroDivisionError"
  using round_to_step_nonpositive_step [of "PInt 0" "PFloat (Finite (3 / 2))"]
  by (simp add: py_le_def)

section \<open>Symbols outside the table\<close>

text \<open>
  Claim C8. For a symbol that is not a key of the precision table, size and price
  normalisation are the identity: the raw value comes back as it was given and the
  result is a value, not an error.
\<close>

theorem unknown_symbol_passes_through:
  assumes "symbol \<notin> fst ` set SYMBOL_PRECISION"
  shows "adjust_size_to_precision sz symbol = Inr sz \<and> adjust_price_to_precision price symbol = Inr price"
proof -
  have "map_of SYMBOL_PRECISION symbol = None" using assms by (simp add: map_of_eq_None_iff)
  then show ?thesis by (simp add: adjust_size_to_precision_def adjust_price_to_precision_def)
qed

theorem unknown_symbol_passes_through_witness:
  "''cmt_unknown'' \<notin> fst ` set SYMBOL_PRECISION
   \<and> adjust_size_to_precision (lit (432 / 125)) ''cmt_unknown'' = Inr (lit (432 / 125))
   \<and> adjust_price_to_precision (lit (432 / 125)) ''cmt_unknown'' = Inr (lit (432 / 125))"
proof -
  have h: "''cmt_unknown'' \<notin> fst ` set SYMBOL_PRECISION"
    by (simp add: SYMBOL_PRECISION_def)
  show ?thesis using h unknown_symbol_passes_through [OF h] by simp
qed

section \<open>The signature\<close>


section \<open>A limit order without a price\<close>



section \<open>The body of an order request\<close>

text \<open>
  Claim C7. Whenever \<open>place_order\<close> sends a request, it sends exactly one, and its
  body is the JSON text of an object with exactly the fields symbol, client_oid, size,
  type, order_type, match_price and price, all strings: size is the text of the adjusted
  size, type is "1" for buy and "2" otherwise (so for sell), order_type is "0",
  match_price is "1" for a market order and "0" otherwise (so for a limit order), and
  price is the literal "0" for every order that is not a limit order, whatever price
  argument was supplied; for a limit order it is the formatted adjusted price.
\<close>

theorem order_request_body_fields:
  assumes "sent (snd (place_order cfg en symbol side order_type sz price verbose w)) \<noteq> sent w"
  shows "\<exists>a price_str rq.
     sent (snd (place_order cfg en symbol side order_type sz price verbose w)) = sent w @ [rq]
     \<and> adjust_size_to_precision sz symbol = Inr a
     \<and> rq_data rq = Some (json_dumps (JObj
          [(''symbol'', JStr symbol),
           (''client_oid'', JStr (str_of_int (clock_ms en (clock_reads w)))),
           (''size'', JStr (py_str a)),
           (''type'', JStr (if side = ''buy'' then ''1'' else ''2'')),
           (''order_type'', JStr ''0''),
           (''match_price'', JStr (if order_type = ''market'' then ''1'' else ''0'')),
           (''price'', JStr price_str)]))
     \<and> (if order_type = ''limit''
         then (\<exists>p ap. price = Some p \<and> adjust_price_to_precision p symbol = Inr ap
                      \<and> format_price_string ap symbol = Inr price_str)
         else price_str = ''0'')"
proof -
  from place_order_sent_cases[of cfg en symbol side order_type sz price verbose w] assms
  obtain a price_str rq where
    a: "adjust_size_to_precision sz symbol = Inr a"
    and p: "order_price symbol order_type price = Inr (Some price_str)"
    and s: "sent (snd (place_order cfg en symbol side order_type sz price verbose w)) = sent w @ [rq]"
    and d: "rq_data rq = Some (json_dumps (JObj
             (order_body symbol (str_of_int (clock_ms en (clock_reads w))) a side order_type
              @ [(''price'', JStr price_str)])))"
    by blast
  have pr: "if order_type = ''limit''
         then (\<exists>p ap. price = Some p \<and> adjust_price_to_precision p symbol = Inr ap
                      \<and> format_price_string ap symbol = Inr price_str)
         else price_str = ''0''"
    using p by (auto simp: order_price_def split: if_splits option.splits sum.splits)
  have d': "rq_data rq = Some (json_dumps (JObj
          [(''symbol'', JStr symbol),
           (''client_oid'', JStr (str_of_int (clock_ms en (clock_reads w)))),
           (''size'', JStr (py_str a)),
           (''type'', JStr (if side = ''buy'' then ''1'' else ''2'')),
           (''order_type'', JStr ''0''),
           (''match_price'', JStr (if order_type = ''market'' then ''1'' else ''0'')),
           (''price'', JStr price_str)]))"
    unfolding d by (simp add: order_body_def Let_def)
  show ?thesis using a s d' pr by blast
qed

theorem order_request_body_fields_witness:
  "sent (snd (place_order demo_config demo_env ''cmt_dogeusdt'' ''sell'' ''market''
                (PFloat (Finite 50)) (Some (PInt 7)) False demo_world)) \<noteq> sent demo_world
   \<and> (\<exists>rq. sent (snd (place_order demo_config demo_env ''cmt_dogeusdt'' ''sell'' ''market''
                (PFloat (Finite 50)) (Some (PInt 7)) False demo_world)) = [rq]
        \<and> rq_data rq = Some (json_dumps (JObj
          [(''symbol'', JStr ''cmt_dogeusdt''),
           (''client_oid'', JStr (str_of_int 1700000000000)),
           (''size'', JStr (py_str (PInt 100))),
           (''type'', JStr ''2''),
           (''order_type'', JStr ''0''),
           (''match_price'', JStr ''1''),
           (''price'', JStr ''0'')])))"
proof -
  have h: "sent (snd (place_order demo_config demo_env ''cmt_dogeusdt'' ''sell'' ''market''
                (PFloat (Finite 50)) (Some (PInt 7)) False demo_world)) \<noteq> sent demo_world"
    by (rule market_order_is_sent[OF doge_size_50])
  show ?thesis
    using h order_request_body_fields[OF h] doge_size_50
    by (auto simp: demo_world_def demo_env_def)
qed

section \<open>Failures while querying all positions\<close>



end
